theory Spec2Isabelle
  imports Main "HOL-Library.Word"
begin

section \<open>JavaScript strings\<close>

text \<open>
  The component of \<^verbatim>\<open>src/App.tsx\<close> works on JavaScript strings, which are sequences of
  16-bit code units. Its messages are Arabic and \<^verbatim>\<open>String.prototype.trim\<close> removes white
  space beyond ASCII, so a string is modelled as a list of 16-bit words. \<open>js\<close> embeds an
  ASCII literal.
\<close>

type_synonym code_unit = "16 word"
type_synonym js_string = "code_unit list"

definition js :: "string \<Rightarrow> js_string" where
  "js s = map of_char s"

definition ch :: "char \<Rightarrow> code_unit" where
  "ch c = of_char c"

text \<open>
  \<^verbatim>\<open>WhiteSpace\<close> and \<^verbatim>\<open>LineTerminator\<close> of ECMAScript: the code units that
  \<^verbatim>\<open>trim\<close> strips from both ends.
\<close>

definition is_white_space :: "code_unit \<Rightarrow> bool" where
  "is_white_space c \<longleftrightarrow>
     c = 0x9 \<or> c = 0xA \<or> c = 0xB \<or> c = 0xC \<or> c = 0xD \<or> c = 0x20 \<or> c = 0xA0 \<or>
     c = 0x1680 \<or> (0x2000 \<le> c \<and> c \<le> 0x200A) \<or> c = 0x2028 \<or> c = 0x2029 \<or>
     c = 0x202F \<or> c = 0x205F \<or> c = 0x3000 \<or> c = 0xFEFF"

definition trim :: "js_string \<Rightarrow> js_string" where
  "trim s = rev (dropWhile is_white_space (rev (dropWhile is_white_space s)))"

text \<open>\<^verbatim>\<open>hay.includes(needle)\<close>: the needle occurs at some position of the hay.\<close>

fun str_includes :: "js_string \<Rightarrow> js_string \<Rightarrow> bool" where
  "str_includes [] needle = (needle = [])"
| "str_includes (c # cs) needle =
     (take (length needle) (c # cs) = needle \<or> str_includes cs needle)"

text \<open>
  \<^verbatim>\<open>s.split(sep)\<close> for a separator of one code unit, and the indexing of the array it
  returns: an index out of range reads \<^verbatim>\<open>undefined\<close>, which is \<open>None\<close>.
\<close>

fun split_on :: "code_unit \<Rightarrow> js_string \<Rightarrow> js_string list" where
  "split_on sep [] = [[]]"
| "split_on sep (c # cs) =
     (if c = sep then [] # split_on sep cs
      else (case split_on sep cs of
              [] \<Rightarrow> [[c]]
            | p # ps \<Rightarrow> (c # p) # ps))"

definition index :: "'a list \<Rightarrow> nat \<Rightarrow> 'a option" where
  "index xs i = (if i < length xs then Some (xs ! i) else None)"

section \<open>JSON values and \<^verbatim>\<open>JSON.parse\<close>\<close>

text \<open>
  The value \<^verbatim>\<open>JSON.parse\<close> returns. A number keeps the text of its literal (its value as a
  double is not modelled); an object keeps its members in the order of the text, and a
  property read takes the last member of that name, as a repeated name overwrites the
  earlier one.
\<close>

datatype json =
    JNull
  | JBool bool
  | JNumber js_string
  | JString js_string
  | JArray "json list"
  | JObject "(js_string \<times> json) list"

fun get_prop :: "json \<Rightarrow> js_string \<Rightarrow> json option" where
  "get_prop (JObject ms) k = map_of (rev ms) k"
| "get_prop _ k = None"

text \<open>
  The parser reads the text one code unit at a time and keeps a stack of the arrays and
  objects that are still open. It implements the JSON grammar of ECMA-404: white space is
  space, tab, line feed and carriage return; a string may not hold a code unit below
  \<open>0x20\<close> unescaped; a number has no leading zeros.
\<close>

datatype escape = Plain | Backslash | Hex nat code_unit

datatype num_state = NMinus | NZero | NInt | NDot | NFrac | NE | NESign | NExp

datatype frame =
    ArrF "json list"
  | ObjF "(js_string \<times> json) list" js_string

datatype mode =
    Value | ValueOrEnd | KeyOrEnd | Key | Colon | After
  | InStr bool js_string escape
  | InNum num_state js_string
  | InLit js_string json

datatype pstate = Failed | Done json | Parsing mode "frame list"

definition json_ws :: "code_unit \<Rightarrow> bool" where
  "json_ws c \<longleftrightarrow> c = 0x20 \<or> c = 0x9 \<or> c = 0xA \<or> c = 0xD"

definition is_digit :: "code_unit \<Rightarrow> bool" where
  "is_digit c \<longleftrightarrow> 0x30 \<le> c \<and> c \<le> 0x39"

definition hex_val :: "code_unit \<Rightarrow> code_unit option" where
  "hex_val c =
     (if 0x30 \<le> c \<and> c \<le> 0x39 then Some (c - 0x30)
      else if 0x41 \<le> c \<and> c \<le> 0x46 then Some (c - 0x37)
      else if 0x61 \<le> c \<and> c \<le> 0x66 then Some (c - 0x57)
      else None)"

definition unescape :: "code_unit \<Rightarrow> code_unit option" where
  "unescape c =
     (if c = ch CHR 0x22 \<or> c = ch CHR 0x5C \<or> c = ch CHR ''/'' then Some c
      else if c = ch CHR ''b'' then Some 0x8
      else if c = ch CHR ''f'' then Some 0xC
      else if c = ch CHR ''n'' then Some 0xA
      else if c = ch CHR ''r'' then Some 0xD
      else if c = ch CHR ''t'' then Some 0x9
      else None)"

fun complete :: "json \<Rightarrow> frame list \<Rightarrow> pstate" where
  "complete v [] = Done v"
| "complete v (ArrF es # st) = Parsing After (ArrF (es @ [v]) # st)"
| "complete v (ObjF ms k # st) = Parsing After (ObjF (ms @ [(k, v)]) k # st)"

fun after_value :: "pstate \<Rightarrow> code_unit \<Rightarrow> pstate" where
  "after_value (Done v) c = (if json_ws c then Done v else Failed)"
| "after_value (Parsing After (ArrF es # st)) c =
     (if json_ws c then Parsing After (ArrF es # st)
      else if c = ch CHR '','' then Parsing Value (ArrF es # st)
      else if c = ch CHR '']'' then complete (JArray es) st
      else Failed)"
| "after_value (Parsing After (ObjF ms k # st)) c =
     (if json_ws c then Parsing After (ObjF ms k # st)
      else if c = ch CHR '','' then Parsing Key (ObjF ms k # st)
      else if c = ch CHR ''}'' then complete (JObject ms) st
      else Failed)"
| "after_value _ c = Failed"

definition begin_value :: "code_unit \<Rightarrow> frame list \<Rightarrow> pstate" where
  "begin_value c st =
     (if c = ch CHR ''{'' then Parsing KeyOrEnd (ObjF [] [] # st)
      else if c = ch CHR ''['' then Parsing ValueOrEnd (ArrF [] # st)
      else if c = ch CHR 0x22 then Parsing (InStr False [] Plain) st
      else if c = ch CHR ''-'' then Parsing (InNum NMinus [c]) st
      else if c = ch CHR ''0'' then Parsing (InNum NZero [c]) st
      else if is_digit c then Parsing (InNum NInt [c]) st
      else if c = ch CHR ''t'' then Parsing (InLit (js ''rue'') (JBool True)) st
      else if c = ch CHR ''f'' then Parsing (InLit (js ''alse'') (JBool False)) st
      else if c = ch CHR ''n'' then Parsing (InLit (js ''ull'') JNull) st
      else Failed)"

fun end_string :: "bool \<Rightarrow> js_string \<Rightarrow> frame list \<Rightarrow> pstate" where
  "end_string True s (ObjF ms k # st) = Parsing Colon (ObjF ms s # st)"
| "end_string True s _ = Failed"
| "end_string False s st = complete (JString s) st"

fun string_char :: "bool \<Rightarrow> js_string \<Rightarrow> escape \<Rightarrow> code_unit \<Rightarrow> frame list \<Rightarrow> pstate" where
  "string_char key acc Plain c st =
     (if c = ch CHR 0x22 then end_string key acc st
      else if c = ch CHR 0x5C then Parsing (InStr key acc Backslash) st
      else if c < 0x20 then Failed
      else Parsing (InStr key (acc @ [c]) Plain) st)"
| "string_char key acc Backslash c st =
     (if c = ch CHR ''u'' then Parsing (InStr key acc (Hex 0 0)) st
      else (case unescape c of
              None \<Rightarrow> Failed
            | Some d \<Rightarrow> Parsing (InStr key (acc @ [d]) Plain) st))"
| "string_char key acc (Hex n v) c st =
     (case hex_val c of
        None \<Rightarrow> Failed
      | Some d \<Rightarrow>
          if n = 3 then Parsing (InStr key (acc @ [v * 16 + d]) Plain) st
          else Parsing (InStr key acc (Hex (Suc n) (v * 16 + d))) st)"

text \<open>
  The automaton of a number literal: the state after one more code unit, or \<open>None\<close>
  when the code unit does not continue the literal.
\<close>

fun number_char :: "num_state \<Rightarrow> code_unit \<Rightarrow> num_state option" where
  "number_char NMinus c =
     (if c = ch CHR ''0'' then Some NZero else if is_digit c then Some NInt else None)"
| "number_char NZero c =
     (if c = ch CHR ''.'' then Some NDot
      else if c = ch CHR ''e'' \<or> c = ch CHR ''E'' then Some NE else None)"
| "number_char NInt c =
     (if is_digit c then Some NInt
      else if c = ch CHR ''.'' then Some NDot
      else if c = ch CHR ''e'' \<or> c = ch CHR ''E'' then Some NE else None)"
| "number_char NDot c = (if is_digit c then Some NFrac else None)"
| "number_char NFrac c =
     (if is_digit c then Some NFrac
      else if c = ch CHR ''e'' \<or> c = ch CHR ''E'' then Some NE else None)"
| "number_char NE c =
     (if c = ch CHR ''+'' \<or> c = ch CHR ''-'' then Some NESign
      else if is_digit c then Some NExp else None)"
| "number_char NESign c = (if is_digit c then Some NExp else None)"
| "number_char NExp c = (if is_digit c then Some NExp else None)"

fun accepting :: "num_state \<Rightarrow> bool" where
  "accepting NZero = True"
| "accepting NInt = True"
| "accepting NFrac = True"
| "accepting NExp = True"
| "accepting _ = False"

fun step :: "pstate \<Rightarrow> code_unit \<Rightarrow> pstate" where
  "step Failed c = Failed"
| "step (Done v) c = after_value (Done v) c"
| "step (Parsing Value st) c = (if json_ws c then Parsing Value st else begin_value c st)"
| "step (Parsing ValueOrEnd st) c =
     (if json_ws c then Parsing ValueOrEnd st
      else if c = ch CHR '']'' then
        (case st of ArrF es # st' \<Rightarrow> complete (JArray es) st' | _ \<Rightarrow> Failed)
      else begin_value c st)"
| "step (Parsing KeyOrEnd st) c =
     (if json_ws c then Parsing KeyOrEnd st
      else if c = ch CHR 0x22 then Parsing (InStr True [] Plain) st
      else if c = ch CHR ''}'' then
        (case st of ObjF ms k # st' \<Rightarrow> complete (JObject ms) st' | _ \<Rightarrow> Failed)
      else Failed)"
| "step (Parsing Key st) c =
     (if json_ws c then Parsing Key st
      else if c = ch CHR 0x22 then Parsing (InStr True [] Plain) st
      else Failed)"
| "step (Parsing Colon st) c =
     (if json_ws c then Parsing Colon st
      else if c = ch CHR '':'' then Parsing Value st
      else Failed)"
| "step (Parsing After st) c = after_value (Parsing After st) c"
| "step (Parsing (InStr key acc esc) st) c = string_char key acc esc c st"
| "step (Parsing (InNum ns acc) st) c =
     (case number_char ns c of
        Some ns' \<Rightarrow> Parsing (InNum ns' (acc @ [c])) st
      | None \<Rightarrow> if accepting ns then after_value (complete (JNumber acc) st) c else Failed)"
| "step (Parsing (InLit rest v) st) c =
     (case rest of
        [] \<Rightarrow> Failed
      | r # rs \<Rightarrow>
          if c \<noteq> r then Failed
          else if rs = [] then complete v st
          else Parsing (InLit rs v) st)"

fun finish :: "pstate \<Rightarrow> json option" where
  "finish (Done v) = Some v"
| "finish (Parsing (InNum ns acc) []) = (if accepting ns then Some (JNumber acc) else None)"
| "finish _ = None"

text \<open>\<^verbatim>\<open>JSON.parse(text)\<close>; \<open>None\<close> is the \<^verbatim>\<open>SyntaxError\<close> it throws.\<close>

definition JSON_parse :: "js_string \<Rightarrow> json option" where
  "JSON_parse text = finish (foldl step (Parsing Value []) text)"

section \<open>The component \<^verbatim>\<open>App\<close>\<close>

subsection \<open>State\<close>

text \<open>
  The state variables of the component (\<^verbatim>\<open>useState\<close>), with \<^verbatim>\<open>null\<close> as \<open>None\<close>. The
  result holds whatever \<^verbatim>\<open>JSON.parse\<close> returned, so it is a JSON value and \<^verbatim>\<open>null\<close> is
  \<open>JNull\<close>. The browser's \<^verbatim>\<open>localStorage\<close> outlives the component and is kept beside them.
\<close>

record app_state =
  image :: "js_string option"
  loading :: bool
  result :: json
  error :: "js_string option"
  apiKey :: js_string
  showKey :: bool
  localStorage :: "js_string \<rightharpoonup> js_string"

subsection \<open>The platform\<close>

text \<open>
  A value that reaches the \<^verbatim>\<open>catch\<close> clause: \<open>Nullish\<close> is \<^verbatim>\<open>null\<close> or \<^verbatim>\<open>undefined\<close>;
  \<open>Thrown m\<close> is any other value, \<open>m\<close> being its \<^verbatim>\<open>message\<close> property when that is a
  string and \<open>None\<close> when it is \<^verbatim>\<open>null\<close> or \<^verbatim>\<open>undefined\<close>.
\<close>

datatype thrown = Nullish | Thrown "js_string option"

record request =
  model :: js_string
  inline_mimeType :: js_string
  inline_data :: "js_string option"
  text_part :: js_string
  responseMimeType :: js_string

text \<open>
  The call \<^verbatim>\<open>ai.models.generateContent\<close> either rejects with a thrown value or resolves
  with a response, of which the code reads \<^verbatim>\<open>response.text\<close> (a string or \<^verbatim>\<open>undefined\<close>).
\<close>

datatype reply = Rejects thrown | Resolves "js_string option"

text \<open>
  What the component does not decide itself: the answer of the provider's client to a
  request made with a key; the message of the \<^verbatim>\<open>SyntaxError\<close> that \<^verbatim>\<open>JSON.parse\<close>
  throws for a text, which ECMAScript leaves to the engine; and whether the store, with
  its present contents, takes a value under a key; \<^verbatim>\<open>localStorage.setItem\<close> throws a
  \<^verbatim>\<open>QuotaExceededError\<close> when it does not.
\<close>

record platform =
  generateContent :: "js_string \<Rightarrow> request \<Rightarrow> reply"
  syntaxErrorMessage :: "js_string \<Rightarrow> js_string"
  setItem_accepts :: "(js_string \<rightharpoonup> js_string) \<Rightarrow> js_string \<Rightarrow> js_string \<Rightarrow> bool"

text \<open>
  A file of the file input: its media type, the base64 encoding of its bytes, and whether
  reading it fails. \<^verbatim>\<open>reader.result\<close> is the data URL after a read, \<^verbatim>\<open>null\<close> after a
  failed one.
\<close>

record image_file =
  file_type :: js_string
  file_base64 :: js_string
  read_fails :: bool

definition readAsDataURL :: "image_file \<Rightarrow> js_string option" where
  "readAsDataURL f =
     (if read_fails f then None
      else Some (js ''data:'' @ file_type f @ js '';base64,'' @ file_base64 f))"

subsection \<open>Events\<close>

text \<open>
  A handler is modelled by the sequence of state updates and platform calls it makes, in
  program order; \<open>run\<close> applies the state updates.
\<close>

datatype event =
    SetImage "js_string option"
  | SetLoading bool
  | SetResult json
  | SetError "js_string option"
  | SetApiKey js_string
  | SetShowKey bool
  | StorageSetItem js_string js_string
  | Alert js_string
  | ConsoleError thrown
  | GenerateContent js_string request

fun apply_event :: "app_state \<Rightarrow> event \<Rightarrow> app_state" where
  "apply_event s (SetImage v) = s\<lparr>image := v\<rparr>"
| "apply_event s (SetLoading v) = s\<lparr>loading := v\<rparr>"
| "apply_event s (SetResult v) = s\<lparr>result := v\<rparr>"
| "apply_event s (SetError v) = s\<lparr>error := v\<rparr>"
| "apply_event s (SetApiKey v) = s\<lparr>apiKey := v\<rparr>"
| "apply_event s (SetShowKey v) = s\<lparr>showKey := v\<rparr>"
| "apply_event s (StorageSetItem k v) = s\<lparr>localStorage := (localStorage s)(k \<mapsto> v)\<rparr>"
| "apply_event s (Alert m) = s"
| "apply_event s (ConsoleError e) = s"
| "apply_event s (GenerateContent k r) = s"

definition run :: "app_state \<Rightarrow> event list \<Rightarrow> app_state" where
  "run s es = foldl apply_event s es"

fun requests :: "event list \<Rightarrow> request list" where
  "requests [] = []"
| "requests (GenerateContent k r # es) = r # requests es"
| "requests (e # es) = requests es"

text \<open>The values given to \<^verbatim>\<open>setLoading\<close> by a sequence of events, in order.\<close>

fun loading_updates :: "event list \<Rightarrow> bool list" where
  "loading_updates [] = []"
| "loading_updates (SetLoading b # es) = b # loading_updates es"
| "loading_updates (e # es) = loading_updates es"

text \<open>
  The texts of the responses with which the platform resolves the requests of a sequence
  of events, in order.
\<close>

fun texts_received :: "platform \<Rightarrow> event list \<Rightarrow> js_string list" where
  "texts_received env [] = []"
| "texts_received env (GenerateContent k r # es) =
     (case generateContent env k r of
        Resolves (Some t) \<Rightarrow> t # texts_received env es
      | _ \<Rightarrow> texts_received env es)"
| "texts_received env (e # es) = texts_received env es"

subsection \<open>String constants of the source\<close>

text \<open>
  The literals of \<^verbatim>\<open>src/App.tsx\<close> as UTF-16 code units. In the English copy of the file
  they read: "Please enter your Gemini API Key first!", "No response received from the
  model.", "Invalid API Key. Please check your key and try again." and "An error occurred
  during analysis. Please ensure your API Key is valid and you have quota."; the last
  constant is the instruction sent with the image.
\<close>

definition storage_key :: js_string where
  "storage_key = js ''eman_ai_describer_apikey''"

definition missing_key_notice :: js_string where
  "missing_key_notice = [
    0x64A, 0x631, 0x62C, 0x649, 0x20, 0x625, 0x62F, 0x62E, 0x627, 0x644, 0x20, 0x645, 0x641,
    0x62A, 0x627, 0x62D, 0x20, 0x41, 0x50, 0x49, 0x20, 0x627, 0x644, 0x62E, 0x627, 0x635, 0x20,
    0x628, 0x643, 0x20, 0x623, 0x648, 0x644, 0x627, 0x64B, 0x21]"

definition no_response_message :: js_string where
  "no_response_message = [
    0x644, 0x645, 0x20, 0x64A, 0x62A, 0x645, 0x20, 0x627, 0x633, 0x62A, 0x644, 0x627, 0x645,
    0x20, 0x623, 0x64A, 0x20, 0x627, 0x633, 0x62A, 0x62C, 0x627, 0x628, 0x629, 0x20, 0x645,
    0x646, 0x20, 0x627, 0x644, 0x646, 0x645, 0x648, 0x630, 0x62C, 0x2E]"

definition invalid_key_message :: js_string where
  "invalid_key_message = [
    0x645, 0x641, 0x62A, 0x627, 0x62D, 0x20, 0x41, 0x50, 0x49, 0x20, 0x63A, 0x64A, 0x631, 0x20,
    0x635, 0x627, 0x644, 0x62D, 0x2E, 0x20, 0x64A, 0x631, 0x62C, 0x649, 0x20, 0x627, 0x644,
    0x62A, 0x62D, 0x642, 0x642, 0x20, 0x645, 0x646, 0x20, 0x627, 0x644, 0x645, 0x641, 0x62A,
    0x627, 0x62D, 0x20, 0x648, 0x627, 0x644, 0x645, 0x62D, 0x627, 0x648, 0x644, 0x629, 0x20,
    0x645, 0x631, 0x629, 0x20, 0x623, 0x62E, 0x631, 0x649, 0x2E]"

definition generic_failure_message :: js_string where
  "generic_failure_message = [
    0x62D, 0x62F, 0x62B, 0x20, 0x62E, 0x637, 0x623, 0x20, 0x623, 0x62B, 0x646, 0x627, 0x621,
    0x20, 0x627, 0x644, 0x62A, 0x62D, 0x644, 0x64A, 0x644, 0x2E, 0x20, 0x64A, 0x631, 0x62C,
    0x649, 0x20, 0x627, 0x644, 0x62A, 0x623, 0x643, 0x62F, 0x20, 0x645, 0x646, 0x20, 0x635,
    0x644, 0x627, 0x62D, 0x64A, 0x629, 0x20, 0x627, 0x644, 0x645, 0x641, 0x62A, 0x627, 0x62D,
    0x20, 0x648, 0x648, 0x62C, 0x648, 0x62F, 0x20, 0x631, 0x635, 0x64A, 0x62F, 0x20, 0x645,
    0x62A, 0x627, 0x62D, 0x2E]"

definition instruction_text :: js_string where
  "instruction_text = [
    0x62D, 0x644, 0x644, 0x20, 0x647, 0x630, 0x647, 0x20, 0x627, 0x644, 0x635, 0x648, 0x631,
    0x629, 0x20, 0x628, 0x639, 0x646, 0x627, 0x64A, 0x629, 0x20, 0x641, 0x627, 0x626, 0x642,
    0x629, 0x2E, 0x20, 0xA, 0x20, 0x20, 0x20, 0x20, 0x20, 0x20, 0x20, 0x20, 0x20, 0x20, 0x20,
    0x20, 0x20, 0x20, 0x20, 0x20, 0x31, 0x2E, 0x20, 0x642, 0x62F, 0x645, 0x20, 0x648, 0x635,
    0x641, 0x627, 0x64B, 0x20, 0x62A, 0x641, 0x635, 0x64A, 0x644, 0x64A, 0x627, 0x64B, 0x20,
    0x648, 0x634, 0x627, 0x645, 0x644, 0x627, 0x64B, 0x20, 0x628, 0x627, 0x644, 0x644, 0x63A,
    0x629, 0x20, 0x627, 0x644, 0x639, 0x631, 0x628, 0x64A, 0x629, 0x2E, 0xA, 0x20, 0x20, 0x20,
    0x20, 0x20, 0x20, 0x20, 0x20, 0x20, 0x20, 0x20, 0x20, 0x20, 0x20, 0x20, 0x20, 0x32, 0x2E,
    0x20, 0x635, 0x63A, 0x20, 0x623, 0x645, 0x631, 0x627, 0x64B, 0x20, 0x627, 0x62D, 0x62A,
    0x631, 0x627, 0x641, 0x64A, 0x627, 0x64B, 0x20, 0x628, 0x627, 0x644, 0x644, 0x63A, 0x629,
    0x20, 0x627, 0x644, 0x625, 0x646, 0x62C, 0x644, 0x64A, 0x632, 0x64A, 0x629, 0x20, 0x644,
    0x62A, 0x648, 0x644, 0x64A, 0x62F, 0x20, 0x635, 0x648, 0x631, 0x629, 0x20, 0x645, 0x634,
    0x627, 0x628, 0x647, 0x629, 0x20, 0x28, 0x50, 0x72, 0x6F, 0x6D, 0x70, 0x74, 0x29, 0x20,
    0x644, 0x627, 0x633, 0x62A, 0x62E, 0x62F, 0x627, 0x645, 0x647, 0x20, 0x641, 0x64A, 0x20,
    0x4D, 0x69, 0x64, 0x6A, 0x6F, 0x75, 0x72, 0x6E, 0x65, 0x79, 0x20, 0x623, 0x648, 0x20, 0x44,
    0x41, 0x4C, 0x4C, 0x2D, 0x45, 0x2E, 0xA, 0x20, 0x20, 0x20, 0x20, 0x20, 0x20, 0x20, 0x20,
    0x20, 0x20, 0x20, 0x20, 0x20, 0x20, 0x20, 0x20, 0xA, 0x20, 0x20, 0x20, 0x20, 0x20, 0x20,
    0x20, 0x20, 0x20, 0x20, 0x20, 0x20, 0x20, 0x20, 0x20, 0x20, 0x64A, 0x62C, 0x628, 0x20,
    0x623, 0x646, 0x20, 0x64A, 0x643, 0x648, 0x646, 0x20, 0x627, 0x644, 0x631, 0x62F, 0x20,
    0x628, 0x62A, 0x646, 0x633, 0x64A, 0x642, 0x20, 0x4A, 0x53, 0x4F, 0x4E, 0x20, 0x62D, 0x635,
    0x631, 0x627, 0x64B, 0x3A, 0xA, 0x20, 0x20, 0x20, 0x20, 0x20, 0x20, 0x20, 0x20, 0x20, 0x20,
    0x20, 0x20, 0x20, 0x20, 0x20, 0x20, 0x7B, 0xA, 0x20, 0x20, 0x20, 0x20, 0x20, 0x20, 0x20,
    0x20, 0x20, 0x20, 0x20, 0x20, 0x20, 0x20, 0x20, 0x20, 0x20, 0x20, 0x22, 0x64, 0x65, 0x73,
    0x63, 0x72, 0x69, 0x70, 0x74, 0x69, 0x6F, 0x6E, 0x22, 0x3A, 0x20, 0x22, 0x627, 0x644,
    0x646, 0x635, 0x20, 0x627, 0x644, 0x639, 0x631, 0x628, 0x64A, 0x20, 0x647, 0x646, 0x627,
    0x22, 0x2C, 0xA, 0x20, 0x20, 0x20, 0x20, 0x20, 0x20, 0x20, 0x20, 0x20, 0x20, 0x20, 0x20,
    0x20, 0x20, 0x20, 0x20, 0x20, 0x20, 0x22, 0x70, 0x72, 0x6F, 0x6D, 0x70, 0x74, 0x22, 0x3A,
    0x20, 0x22, 0x54, 0x68, 0x65, 0x20, 0x45, 0x6E, 0x67, 0x6C, 0x69, 0x73, 0x68, 0x20, 0x70,
    0x72, 0x6F, 0x6D, 0x70, 0x74, 0x20, 0x68, 0x65, 0x72, 0x65, 0x22, 0xA, 0x20, 0x20, 0x20,
    0x20, 0x20, 0x20, 0x20, 0x20, 0x20, 0x20, 0x20, 0x20, 0x20, 0x20, 0x20, 0x20, 0x7D]"

subsection \<open>Start-up and the credential\<close>

definition initial :: "(js_string \<rightharpoonup> js_string) \<Rightarrow> app_state" where
  "initial st =
     \<lparr>image = None, loading = False, result = JNull, error = None, apiKey = [],
      showKey = False, localStorage = st\<rparr>"

definition mount_events :: "app_state \<Rightarrow> event list" where
  "mount_events s =
     (case localStorage s storage_key of
        None \<Rightarrow> []
      | Some savedKey \<Rightarrow> if savedKey = [] then [] else [SetApiKey savedKey])"

definition mount :: "(js_string \<rightharpoonup> js_string) \<Rightarrow> app_state" where
  "mount st = run (initial st) (mount_events (initial st))"

text \<open>
  \<^verbatim>\<open>saveApiKey\<close> updates the state first and writes to the store after it, with no
  handler around the write: when the store refuses the value the function throws, the
  update of the state stands and nothing is stored.
\<close>

datatype outcome = Returned | Threw

definition saveApiKey_events :: "platform \<Rightarrow> js_string \<Rightarrow> app_state \<Rightarrow> event list \<times> outcome" where
  "saveApiKey_events env key s =
     (if setItem_accepts env (localStorage s) storage_key key
      then ([SetApiKey key, StorageSetItem storage_key key], Returned)
      else ([SetApiKey key], Threw))"

definition saveApiKey :: "platform \<Rightarrow> js_string \<Rightarrow> app_state \<Rightarrow> app_state" where
  "saveApiKey env key s = run s (fst (saveApiKey_events env key s))"

definition toggleShowKey :: "app_state \<Rightarrow> app_state" where
  "toggleShowKey s = run s [SetShowKey (\<not> showKey s)]"

subsection \<open>Image intake\<close>

text \<open>
  \<^verbatim>\<open>handleImageChange\<close> with the first file of the input, if any; the updates are those of
  \<^verbatim>\<open>reader.onloadend\<close>.
\<close>

definition handleImageChange_events :: "image_file option \<Rightarrow> event list" where
  "handleImageChange_events fo =
     (case fo of
        None \<Rightarrow> []
      | Some f \<Rightarrow> [SetImage (readAsDataURL f), SetResult JNull, SetError None])"

definition handleImageChange :: "image_file option \<Rightarrow> app_state \<Rightarrow> app_state" where
  "handleImageChange fo s = run s (handleImageChange_events fo)"

subsection \<open>Analysis\<close>

definition build_request :: "js_string \<Rightarrow> request" where
  "build_request img =
     \<lparr>model = js ''gemini-3-flash-preview'',
      inline_mimeType = js ''image/jpeg'',
      inline_data = index (split_on (ch CHR '','') img) 1,
      text_part = instruction_text,
      responseMimeType = js ''application/json''\<rparr>"

text \<open>
  The \<^verbatim>\<open>try\<close> block: its events, and the value it throws, if any. Creating the client
  with the trimmed key and calling it are one step of the platform. An absent or empty
  \<^verbatim>\<open>response.text\<close> is falsy and throws the error of the \<^verbatim>\<open>else\<close> branch; a text that
  \<^verbatim>\<open>JSON.parse\<close> rejects throws its \<^verbatim>\<open>SyntaxError\<close>.
\<close>

definition try_block :: "platform \<Rightarrow> js_string \<Rightarrow> js_string \<Rightarrow> event list \<times> thrown option" where
  "try_block env key img =
     (let req = build_request img;
          call = GenerateContent (trim key) req
      in case generateContent env (trim key) req of
           Rejects e \<Rightarrow> ([call], Some e)
         | Resolves None \<Rightarrow> ([call], Some (Thrown (Some no_response_message)))
         | Resolves (Some text) \<Rightarrow>
             if text = [] then ([call], Some (Thrown (Some no_response_message)))
             else (case JSON_parse text of
                     None \<Rightarrow> ([call], Some (Thrown (Some (syntaxErrorMessage env text))))
                   | Some parsedResult \<Rightarrow> ([call, SetResult parsedResult], None)))"

text \<open>\<^verbatim>\<open>message?.includes(x)\<close>: an absent message gives \<^verbatim>\<open>undefined\<close>, which is falsy.\<close>

definition message_includes :: "js_string option \<Rightarrow> js_string \<Rightarrow> bool" where
  "message_includes m x = (case m of None \<Rightarrow> False | Some t \<Rightarrow> str_includes t x)"

text \<open>
  The promise of the asynchronous function: fulfilled, or rejected when the \<^verbatim>\<open>catch\<close>
  clause itself throws, which reading \<^verbatim>\<open>err.message\<close> of a nullish \<^verbatim>\<open>err\<close> does.
\<close>

datatype completion = Fulfilled | Rejected

definition catch_block :: "thrown \<Rightarrow> event list \<times> completion" where
  "catch_block err =
     (case err of
        Nullish \<Rightarrow> ([ConsoleError err], Rejected)
      | Thrown message \<Rightarrow>
          ([ConsoleError err,
            SetError (Some
              (if message_includes message (js ''403'') \<or>
                  message_includes message (js ''API_KEY_INVALID'')
               then invalid_key_message
               else generic_failure_message))],
           Fulfilled))"

definition analyzeImage_events :: "platform \<Rightarrow> app_state \<Rightarrow> event list \<times> completion" where
  "analyzeImage_events env s =
     (if trim (apiKey s) = [] then ([Alert missing_key_notice], Fulfilled)
      else (case image s of
              None \<Rightarrow> ([], Fulfilled)
            | Some img \<Rightarrow>
                if img = [] then ([], Fulfilled)
                else (case try_block env (apiKey s) img of
                        (tried, None) \<Rightarrow>
                          ([SetLoading True, SetError None] @ tried @ [SetLoading False],
                           Fulfilled)
                      | (tried, Some err) \<Rightarrow>
                          (case catch_block err of
                             (caught, completion) \<Rightarrow>
                               ([SetLoading True, SetError None] @ tried @ caught @
                                [SetLoading False],
                                completion)))))"

definition analyzeImage :: "platform \<Rightarrow> app_state \<Rightarrow> app_state" where
  "analyzeImage env s = run s (fst (analyzeImage_events env s))"

subsection \<open>The trigger\<close>

text \<open>
  The only caller of \<^verbatim>\<open>analyzeImage\<close> is the button, which carries
  \<^verbatim>\<open>disabled={!image || loading}\<close>: a click on a disabled button dispatches nothing.
\<close>

definition analyze_disabled :: "app_state \<Rightarrow> bool" where
  "analyze_disabled s \<longleftrightarrow> image s = None \<or> image s = Some [] \<or> loading s"

definition click_analyze_events :: "platform \<Rightarrow> app_state \<Rightarrow> event list" where
  "click_analyze_events env s =
     (if analyze_disabled s then [] else fst (analyzeImage_events env s))"

definition click_analyze :: "platform \<Rightarrow> app_state \<Rightarrow> app_state" where
  "click_analyze env s = run s (click_analyze_events env s)"

subsection \<open>Reachable states\<close>

text \<open>
  The states the interface reaches from a start, each with the response texts received
  on the way.
\<close>

inductive reachable :: "js_string list \<Rightarrow> app_state \<Rightarrow> bool" where
  start: "reachable [] (mount st)"
| key: "reachable h s \<Longrightarrow> reachable h (saveApiKey env k s)"
| toggle: "reachable h s \<Longrightarrow> reachable h (toggleShowKey s)"
| pick: "reachable h s \<Longrightarrow> reachable h (handleImageChange fo s)"
| analyze: "reachable h s \<Longrightarrow>
     reachable (h @ texts_received env (click_analyze_events env s)) (click_analyze env s)"

subsection \<open>Sequences of selections\<close>

fun select_all :: "image_file list \<Rightarrow> app_state \<Rightarrow> app_state" where
  "select_all [] s = s"
| "select_all (f # fs) s = select_all fs (handleImageChange (Some f) s)"

subsection \<open>The shape the result is declared with\<close>

text \<open>
  The state variable is declared as \<^verbatim>\<open>{ description: string; prompt: string } | null\<close>:
  a value has this shape when both properties are strings.
\<close>

definition two_field_shape :: "json \<Rightarrow> bool" where
  "two_field_shape v =
     (case (get_prop v (js ''description''), get_prop v (js ''prompt'')) of
        (Some (JString d), Some (JString p)) \<Rightarrow> True
      | _ \<Rightarrow> False)"

subsection \<open>Sample inputs\<close>

definition png_file :: image_file where
  "png_file = \<lparr>file_type = js ''image/png'', file_base64 = js ''iVBORw0KGgo='', read_fails = False\<rparr>"

definition answering :: "js_string option \<Rightarrow> js_string \<Rightarrow> platform" where
  "answering text msg =
     \<lparr>generateContent = (\<lambda>k r. Resolves text), syntaxErrorMessage = (\<lambda>t. msg),
      setItem_accepts = (\<lambda>st k v. True)\<rparr>"

definition rejecting :: "thrown \<Rightarrow> platform" where
  "rejecting e =
     \<lparr>generateContent = (\<lambda>k r. Rejects e), syntaxErrorMessage = (\<lambda>t. []),
      setItem_accepts = (\<lambda>st k v. True)\<rparr>"

text \<open>A platform whose store has room, and one whose store has no quota left.\<close>

definition quiet :: platform where
  "quiet = answering None []"

definition no_quota :: platform where
  "no_quota = quiet\<lparr>setItem_accepts := (\<lambda>st k v. False)\<rparr>"

definition ready_state :: app_state where
  "ready_state =
     handleImageChange (Some png_file) (saveApiKey quiet (js ''my-key'') (mount Map.empty))"

text \<open>
  The message with which V8 rejects the text \<^verbatim>\<open>API_KEY_INVALID\<close>: it quotes the text.
\<close>

definition v8_message :: js_string where
  \<open>v8_message = js ''Unexpected token 'A', "API_KEY_INVALID" is not valid JSON''\<close>


definition keyed_state :: app_state where
  "keyed_state = saveApiKey quiet (js ''my-key'') (mount Map.empty)"

definition png_data_url :: js_string where
  "png_data_url = js ''data:image/png;base64,iVBORw0KGgo=''"

definition partial_payload :: js_string where
  \<open>partial_payload = js ''{"description":"A"}''\<close>

definition both_payload :: js_string where
  \<open>both_payload = js ''{"description":"A","prompt":"B"}''\<close>

section \<open>Properties\<close>

subsection \<open>Auxiliary facts\<close>

lemma run_Nil [simp]: "run s [] = s"
  by (simp add: run_def)

lemma run_Cons [simp]: "run s (e # es) = run (apply_event s e) es"
  by (simp add: run_def)

lemma run_append: "run s (xs @ ys) = run (run s xs) ys"
  by (simp add: run_def)



lemma no_response_403: "\<not> str_includes no_response_message (js ''403'')"
  by (simp add: no_response_message_def js_def)

lemma no_response_marker: "\<not> str_includes no_response_message (js ''API_KEY_INVALID'')"
  by (simp add: no_response_message_def js_def)

lemma messages_differ: "invalid_key_message \<noteq> generic_failure_message"
  by (simp add: invalid_key_message_def generic_failure_message_def)

lemma saveApiKey_quiet:
  "saveApiKey quiet k s = s\<lparr>apiKey := k, localStorage := (localStorage s)(storage_key \<mapsto> k)\<rparr>"
  by (simp add: saveApiKey_def saveApiKey_events_def quiet_def answering_def)

lemma handleImageChange_Some:
  "handleImageChange (Some f) s = s\<lparr>image := readAsDataURL f, result := JNull, error := None\<rparr>"
  by (simp add: handleImageChange_def handleImageChange_events_def)

lemma keyed_state_fields:
  "apiKey keyed_state = js ''my-key''"
  "image keyed_state = None"
  "result keyed_state = JNull"
  "error keyed_state = None"
  "loading keyed_state = False"
  by (simp_all add: keyed_state_def saveApiKey_quiet mount_def
      mount_events_def initial_def)

lemma ready_state_fields:
  "apiKey ready_state = js ''my-key''"
  "image ready_state = Some (js ''data:image/png;base64,iVBORw0KGgo='')"
  "result ready_state = JNull"
  "error ready_state = None"
  "loading ready_state = False"
  by (simp_all add: ready_state_def handleImageChange_Some saveApiKey_quiet
      mount_def mount_events_def initial_def readAsDataURL_def png_file_def js_def)

lemma trim_my_key: "trim (js ''my-key'') = js ''my-key''"
  by (simp add: trim_def js_def is_white_space_def)

lemma ready_state_reachable: "reachable [] ready_state"
  unfolding ready_state_def by (intro reachable.intros)

lemma ready_key: "trim (apiKey ready_state) \<noteq> []"
  by (simp add: ready_state_fields trim_my_key) (simp add: js_def)

lemma ready_image: "image ready_state = Some png_data_url"
  by (simp add: ready_state_fields png_data_url_def)

lemma png_data_url_not_empty: "png_data_url \<noteq> []"
  by (simp add: png_data_url_def js_def)

lemma answering_reply: "generateContent (answering payload msg) k r = Resolves payload"
  by (simp add: answering_def)

lemma rejecting_reply: "generateContent (rejecting e) k r = Rejects e"
  by (simp add: rejecting_def)

subsection \<open>The paths of the analysis\<close>

lemma try_block_Rejects:
  "generateContent env (trim key) (build_request img) = Rejects e \<Longrightarrow>
   try_block env key img = ([GenerateContent (trim key) (build_request img)], Some e)"
  by (simp add: try_block_def Let_def)

lemma try_block_no_text:
  "generateContent env (trim key) (build_request img) = Resolves None \<Longrightarrow>
   try_block env key img =
     ([GenerateContent (trim key) (build_request img)], Some (Thrown (Some no_response_message)))"
  by (simp add: try_block_def Let_def)

lemma try_block_empty_text:
  "generateContent env (trim key) (build_request img) = Resolves (Some []) \<Longrightarrow>
   try_block env key img =
     ([GenerateContent (trim key) (build_request img)], Some (Thrown (Some no_response_message)))"
  by (simp add: try_block_def Let_def)

lemma try_block_unparsable:
  "generateContent env (trim key) (build_request img) = Resolves (Some t) \<Longrightarrow> t \<noteq> [] \<Longrightarrow>
   JSON_parse t = None \<Longrightarrow>
   try_block env key img =
     ([GenerateContent (trim key) (build_request img)],
      Some (Thrown (Some (syntaxErrorMessage env t))))"
  by (simp add: try_block_def Let_def)

lemma try_block_parsed:
  "generateContent env (trim key) (build_request img) = Resolves (Some t) \<Longrightarrow> t \<noteq> [] \<Longrightarrow>
   JSON_parse t = Some v \<Longrightarrow>
   try_block env key img =
     ([GenerateContent (trim key) (build_request img), SetResult v], None)"
  by (simp add: try_block_def Let_def)

lemma try_block_cases:
  "(\<exists>e. try_block env key img = ([GenerateContent (trim key) (build_request img)], Some e)) \<or>
   (\<exists>t v. generateContent env (trim key) (build_request img) = Resolves (Some t) \<and>
      t \<noteq> [] \<and> JSON_parse t = Some v \<and>
      try_block env key img =
        ([GenerateContent (trim key) (build_request img), SetResult v], None))"
proof (cases "generateContent env (trim key) (build_request img)")
  case (Rejects e)
  then show ?thesis using try_block_Rejects by blast
next
  case (Resolves payload)
  show ?thesis
  proof (cases payload)
    case None
    with Resolves show ?thesis using try_block_no_text by blast
  next
    case (Some t)
    show ?thesis
    proof (cases "t = []")
      case True
      with Resolves Some show ?thesis using try_block_empty_text by blast
    next
      case False
      show ?thesis
      proof (cases "JSON_parse t")
        case None
        with Resolves Some False show ?thesis using try_block_unparsable by blast
      next
        case (Some v)
        with Resolves \<open>payload = Some t\<close> False show ?thesis using try_block_parsed by blast
      qed
    qed
  qed
qed

lemma analyzeImage_events_ready:
  assumes "trim (apiKey s) \<noteq> []" and "image s = Some img" and "img \<noteq> []"
  shows "analyzeImage_events env s =
           (case try_block env (apiKey s) img of
              (tried, None) \<Rightarrow>
                ([SetLoading True, SetError None] @ tried @ [SetLoading False], Fulfilled)
            | (tried, Some err) \<Rightarrow>
                (case catch_block err of
                   (caught, completion) \<Rightarrow>
                     ([SetLoading True, SetError None] @ tried @ caught @ [SetLoading False],
                      completion)))"
  unfolding analyzeImage_events_def
  by (simp only: assms if_False option.case)

lemma catch_block_Thrown:
  "catch_block (Thrown m) =
     ([ConsoleError (Thrown m),
       SetError (Some (if message_includes m (js ''403'') \<or>
                          message_includes m (js ''API_KEY_INVALID'')
                       then invalid_key_message else generic_failure_message))],
      Fulfilled)"
  by (simp add: catch_block_def)

lemma catch_block_Nullish: "catch_block Nullish = ([ConsoleError Nullish], Rejected)"
  by (simp add: catch_block_def)

lemma analysis_requests:
  assumes "trim (apiKey s) \<noteq> []" and "image s = Some img" and "img \<noteq> []"
  shows "requests (fst (analyzeImage_events env s)) = [build_request img]"
proof -
  consider
    (threw) e where "try_block env (apiKey s) img =
      ([GenerateContent (trim (apiKey s)) (build_request img)], Some e)"
  | (parsed) v where "try_block env (apiKey s) img =
         ([GenerateContent (trim (apiKey s)) (build_request img), SetResult v], None)"
    using try_block_cases [of env "apiKey s" img] by blast
  then show ?thesis
  proof cases
    case (threw e)
    then show ?thesis
      by (cases e)
        (simp_all add: analyzeImage_events_ready [OF assms] catch_block_Thrown catch_block_Nullish)
  next
    case (parsed v)
    then show ?thesis
      by (simp add: analyzeImage_events_ready [OF assms])
  qed
qed

lemma texts_none:
  "texts_received env [] = []"
  "texts_received env [Alert m] = []"
  by simp_all

lemma result_from_reply:
  "result (analyzeImage env s) = result s \<or>
   (\<exists>img t. image s = Some img \<and>
      generateContent env (trim (apiKey s)) (build_request img) = Resolves (Some t) \<and>
      t \<noteq> [] \<and> JSON_parse t = Some (result (analyzeImage env s)) \<and>
      texts_received env (fst (analyzeImage_events env s)) = [t])"
proof (cases "trim (apiKey s) \<noteq> [] \<and> (\<exists>img. image s = Some img \<and> img \<noteq> [])")
  case False
  then have "fst (analyzeImage_events env s) = [Alert missing_key_notice] \<or>
      fst (analyzeImage_events env s) = []"
    by (auto simp: analyzeImage_events_def split: option.splits)
  then show ?thesis
    by (auto simp: analyzeImage_def)
next
  case True
  then obtain img where pre: "trim (apiKey s) \<noteq> []" "image s = Some img" "img \<noteq> []"
    by blast
  consider
    (threw) e where "try_block env (apiKey s) img =
      ([GenerateContent (trim (apiKey s)) (build_request img)], Some e)"
  | (parsed) t v where
      "generateContent env (trim (apiKey s)) (build_request img) = Resolves (Some t)"
      and "t \<noteq> []" and "JSON_parse t = Some v" and
      "try_block env (apiKey s) img =
         ([GenerateContent (trim (apiKey s)) (build_request img), SetResult v], None)"
    using try_block_cases [of env "apiKey s" img] by blast
  then show ?thesis
  proof cases
    case (threw e)
    then have "result (analyzeImage env s) = result s"
      by (cases e)
        (simp_all add: analyzeImage_def analyzeImage_events_ready [OF pre]
          catch_block_Thrown catch_block_Nullish)
    then show ?thesis ..
  next
    case (parsed t v)
    then have "result (analyzeImage env s) = v"
      by (simp add: analyzeImage_def analyzeImage_events_ready [OF pre])
    moreover from parsed have "texts_received env (fst (analyzeImage_events env s)) = [t]"
      by (simp add: analyzeImage_events_ready [OF pre])
    ultimately show ?thesis
      using parsed(1-3) pre(2) by blast
  qed
qed

lemma result_after_click:
  "result (click_analyze env s) = result s \<or>
   (\<exists>t. t \<in> set (texts_received env (click_analyze_events env s)) \<and> t \<noteq> [] \<and>
      JSON_parse t = Some (result (click_analyze env s)))"
proof (cases "analyze_disabled s")
  case True
  then show ?thesis
    by (simp add: click_analyze_def click_analyze_events_def)
next
  case False
  then have "click_analyze_events env s = fst (analyzeImage_events env s)"
    and "click_analyze env s = analyzeImage env s"
    by (simp_all add: click_analyze_def click_analyze_events_def analyzeImage_def)
  with result_from_reply [of env s] show ?thesis
    by auto
qed

lemma click_ready:
  "click_analyze_events env ready_state = fst (analyzeImage_events env ready_state)"
  "click_analyze env ready_state = analyzeImage env ready_state"
  by (simp_all add: click_analyze_def click_analyze_events_def analyze_disabled_def
      analyzeImage_def ready_state_fields js_def)

lemma error_after_throw:
  assumes "trim (apiKey s) \<noteq> []" and "image s = Some img" and "img \<noteq> []"
    and "try_block env (apiKey s) img =
      ([GenerateContent (trim (apiKey s)) (build_request img)], Some (Thrown m))"
  shows "error (analyzeImage env s) =
     Some (if message_includes m (js ''403'') \<or> message_includes m (js ''API_KEY_INVALID'')
           then invalid_key_message else generic_failure_message)"
  using assms(4)
  by (simp add: analyzeImage_def analyzeImage_events_ready [OF assms(1-3)] catch_block_Thrown)

lemma no_response_generic:
  "(if message_includes (Some no_response_message) (js ''403'') \<or>
       message_includes (Some no_response_message) (js ''API_KEY_INVALID'')
    then invalid_key_message else generic_failure_message) = generic_failure_message"
  by (simp add: message_includes_def no_response_403 no_response_marker)

lemma analysis_reachable:
  "reachable (texts_received env (fst (analyzeImage_events env ready_state)))
     (analyzeImage env ready_state)"
  using reachable.analyze [OF ready_state_reachable, of env]
  by (simp add: click_ready)

lemma answered_texts:
  "texts_received (answering (Some t) msg) (fst (analyzeImage_events (answering (Some t) msg) ready_state)) = [t]"
proof -
  consider
    (threw) e where "try_block (answering (Some t) msg) (apiKey ready_state) png_data_url =
      ([GenerateContent (trim (apiKey ready_state)) (build_request png_data_url)], Some e)"
  | (parsed) v where "try_block (answering (Some t) msg) (apiKey ready_state) png_data_url =
      ([GenerateContent (trim (apiKey ready_state)) (build_request png_data_url), SetResult v],
       None)"
    using try_block_cases [of "answering (Some t) msg" "apiKey ready_state" png_data_url]
    by blast
  then show ?thesis
  proof cases
    case (threw e)
    then show ?thesis
      by (cases e)
        (simp_all add: analyzeImage_events_ready [OF ready_key ready_image png_data_url_not_empty]
          catch_block_Thrown catch_block_Nullish answering_reply)
  next
    case (parsed v)
    then show ?thesis
      by (simp add: analyzeImage_events_ready [OF ready_key ready_image png_data_url_not_empty]
          answering_reply)
  qed
qed

subsection \<open>The credential\<close>

text \<open>
  C9, as amended. After the setter \<^verbatim>\<open>saveApiKey\<close> has run with any string \<open>X\<close>, the
  credential in memory is \<open>X\<close>. When the store takes the value, mounting the component
  again on the same \<^verbatim>\<open>localStorage\<close> initialises the credential to \<open>X\<close> (for the empty
  string the stored value is falsy and is not loaded, and the initial credential is the
  empty string itself). When the store refuses the value, the setter throws, the store is
  as it was, and a restart does what it did before the setter ran.
\<close>

theorem credential_round_trip:
  "apiKey (saveApiKey env X s) = X \<and>
   (if setItem_accepts env (localStorage s) storage_key X
    then snd (saveApiKey_events env X s) = Returned \<and>
         apiKey (mount (localStorage (saveApiKey env X s))) = X
    else snd (saveApiKey_events env X s) = Threw \<and>
         localStorage (saveApiKey env X s) = localStorage s \<and>
         mount (localStorage (saveApiKey env X s)) = mount (localStorage s))"
  by (simp add: mount_def mount_events_def initial_def saveApiKey_def saveApiKey_events_def)

theorem credential_round_trip_witness:
  "setItem_accepts quiet (localStorage (mount Map.empty)) storage_key (js ''my-key'') \<and>
   apiKey (mount (localStorage (saveApiKey quiet (js ''my-key'') (mount Map.empty)))) =
     js ''my-key''"
  using credential_round_trip [of quiet "js ''my-key''" "mount Map.empty"]
  by (simp add: quiet_def answering_def)

text \<open>
  C9 as stated fails on a store without quota: the write of the key throws, nothing is
  stored, and the restart starts with the empty credential.
\<close>

theorem credential_lost_counterexample:
  "apiKey (saveApiKey no_quota (js ''my-key'') (mount Map.empty)) = js ''my-key'' \<and>
   apiKey (mount (localStorage (saveApiKey no_quota (js ''my-key'') (mount Map.empty)))) = [] \<and>
   js ''my-key'' \<noteq> []"
  by (simp add: mount_def mount_events_def initial_def saveApiKey_def saveApiKey_events_def
      no_quota_def quiet_def answering_def js_def)

subsection \<open>Image intake\<close>

text \<open>
  C6. After every sequence of image selections (at least one), the active image is what
  the reader produced for the file selected last, and the result and the error are
  absent, whatever the state was before.
\<close>

theorem image_intake_clears:
  assumes "files \<noteq> []"
  shows "image (select_all files s) = readAsDataURL (last files) \<and>
         result (select_all files s) = JNull \<and> error (select_all files s) = None"
  using assms
proof (induction files arbitrary: s)
  case Nil
  then show ?case by simp
next
  case (Cons f fs)
  show ?case
  proof (cases "fs = []")
    case True
    then show ?thesis by (simp add: handleImageChange_Some)
  next
    case False
    with Cons.IH [of "handleImageChange (Some f) s"] show ?thesis by simp
  qed
qed

theorem image_intake_clears_witness:
  "[png_file, png_file\<lparr>file_type := js ''image/webp''\<rparr>] \<noteq> [] \<and>
   image (select_all [png_file, png_file\<lparr>file_type := js ''image/webp''\<rparr>] ready_state) =
     Some (js ''data:image/webp;base64,iVBORw0KGgo='') \<and>
   result (select_all [png_file, png_file\<lparr>file_type := js ''image/webp''\<rparr>] ready_state) = JNull \<and>
   error (select_all [png_file, png_file\<lparr>file_type := js ''image/webp''\<rparr>] ready_state) = None"
  using image_intake_clears [of "[png_file, png_file\<lparr>file_type := js ''image/webp''\<rparr>]" ready_state]
  by (simp add: readAsDataURL_def png_file_def js_def)

subsection \<open>The guards of the analysis\<close>



text \<open>
  C8. In every state without an image, invoking the analysis is a silent no-op. The
  button that invokes it is disabled, so a click dispatches nothing: no notice, no update
  of the state, no request. The handler has its own guard as well: called in such a
  state it changes no state and issues no request, and it is silent unless the
  credential is blank.
\<close>

theorem missing_image_no_op:
  assumes "image s = None \<or> image s = Some []"
  shows "click_analyze_events env s = [] \<and> click_analyze env s = s \<and>
         analyzeImage env s = s \<and>
         requests (fst (analyzeImage_events env s)) = [] \<and>
         (trim (apiKey s) \<noteq> [] \<longrightarrow> analyzeImage_events env s = ([], Fulfilled))"
  using assms
  by (auto simp: click_analyze_def click_analyze_events_def analyze_disabled_def
      analyzeImage_def analyzeImage_events_def)

theorem missing_image_no_op_witness:
  "image (mount Map.empty) = None \<and>
   click_analyze_events quiet (mount Map.empty) = [] \<and>
   click_analyze quiet (mount Map.empty) = mount Map.empty \<and>
   image keyed_state = None \<and> trim (apiKey keyed_state) \<noteq> [] \<and>
   analyzeImage_events quiet keyed_state = ([], Fulfilled)"
proof -
  have i: "image (mount Map.empty) = None \<or> image (mount Map.empty) = Some []"
    by (simp add: mount_def mount_events_def initial_def)
  have j: "image keyed_state = None \<or> image keyed_state = Some []"
    by (simp add: keyed_state_fields)
  have k: "trim (apiKey keyed_state) \<noteq> []"
    by (simp add: keyed_state_fields trim_my_key) (simp add: js_def)
  from missing_image_no_op [OF i, of quiet] missing_image_no_op [OF j, of quiet] k
  show ?thesis
    by (simp add: keyed_state_fields) (simp add: mount_def mount_events_def initial_def)
qed

subsection \<open>The busy flag\<close>

text \<open>
  C5. In every invocation that passes both guards (credential not blank, image present)
  the first update sets busy, the request is dispatched after it, no second request and
  no other update of busy follows, and the last step clears busy, on every path: success,
  a caught failure, and a failure of the handler itself. After the invocation busy is
  false.
\<close>

theorem busy_flag:
  assumes "trim (apiKey s) \<noteq> []" and "image s = Some img" and "img \<noteq> []"
  shows "\<exists>mid. fst (analyzeImage_events env s) =
           [SetLoading True, SetError None, GenerateContent (trim (apiKey s)) (build_request img)]
           @ mid @ [SetLoading False] \<and>
         requests mid = [] \<and> loading_updates mid = [] \<and>
         loading (analyzeImage env s) = False"
proof -
  let ?start = "[SetLoading True, SetError None,
    GenerateContent (trim (apiKey s)) (build_request img)]"
  consider
    (threw) e where "try_block env (apiKey s) img =
      ([GenerateContent (trim (apiKey s)) (build_request img)], Some e)"
  | (parsed) v where "try_block env (apiKey s) img =
      ([GenerateContent (trim (apiKey s)) (build_request img), SetResult v], None)"
    using try_block_cases [of env "apiKey s" img] by blast
  then show ?thesis
  proof cases
    case (threw e)
    show ?thesis
    proof (cases e)
      case Nullish
      with threw have "fst (analyzeImage_events env s) =
          ?start @ [ConsoleError Nullish] @ [SetLoading False]"
        by (simp add: analyzeImage_events_ready [OF assms] catch_block_Nullish)
      moreover have "requests [ConsoleError Nullish] = []"
        and "loading_updates [ConsoleError Nullish] = []"
        by simp_all
      moreover from threw Nullish have "loading (analyzeImage env s) = False"
        by (simp add: analyzeImage_def analyzeImage_events_ready [OF assms] catch_block_Nullish)
      ultimately show ?thesis by blast
    next
      case (Thrown m)
      define msg where "msg = (if message_includes m (js ''403'') \<or>
          message_includes m (js ''API_KEY_INVALID'')
          then invalid_key_message else generic_failure_message)"
      from threw Thrown have "fst (analyzeImage_events env s) =
          ?start @ [ConsoleError (Thrown m), SetError (Some msg)] @ [SetLoading False]"
        by (simp add: analyzeImage_events_ready [OF assms] catch_block_Thrown msg_def)
      moreover have "requests [ConsoleError (Thrown m), SetError (Some msg)] = []"
        and "loading_updates [ConsoleError (Thrown m), SetError (Some msg)] = []"
        by simp_all
      moreover from threw Thrown have "loading (analyzeImage env s) = False"
        by (simp add: analyzeImage_def analyzeImage_events_ready [OF assms] catch_block_Thrown)
      ultimately show ?thesis by blast
    qed
  next
    case (parsed v)
    then have "fst (analyzeImage_events env s) = ?start @ [SetResult v] @ [SetLoading False]"
      by (simp add: analyzeImage_events_ready [OF assms])
    moreover have "requests [SetResult v] = []" and "loading_updates [SetResult v] = []"
      by simp_all
    moreover from parsed have "loading (analyzeImage env s) = False"
      by (simp add: analyzeImage_def analyzeImage_events_ready [OF assms])
    ultimately show ?thesis by blast
  qed
qed

theorem busy_flag_witness:
  "trim (apiKey ready_state) \<noteq> [] \<and> image ready_state = Some png_data_url \<and>
   png_data_url \<noteq> [] \<and>
   (\<exists>mid. fst (analyzeImage_events (rejecting Nullish) ready_state) =
      [SetLoading True, SetError None,
       GenerateContent (trim (apiKey ready_state)) (build_request png_data_url)]
      @ mid @ [SetLoading False] \<and>
      requests mid = [] \<and> loading_updates mid = [] \<and>
      loading (analyzeImage (rejecting Nullish) ready_state) = False)"
  using busy_flag [OF ready_key ready_image png_data_url_not_empty, of "rejecting Nullish"]
    ready_key ready_image png_data_url_not_empty
  by simp

subsection \<open>Success\<close>

lemma payload_AB:
  \<open>JSON_parse (js ''{"description":"A","prompt":"B"}'') =
     Some (JObject [(js ''description'', JString (js ''A'')), (js ''prompt'', JString (js ''B''))])\<close>
  by (simp add: JSON_parse_def js_def ch_def json_ws_def begin_value_def is_digit_def)

text \<open>
  C2. In every invocation with a credential that is not blank and an image present, when
  the model answers with the text \<^verbatim>\<open>{"description":"A","prompt":"B"}\<close>, the stored result
  is the object with \<^verbatim>\<open>description\<close> "A" and \<^verbatim>\<open>prompt\<close> "B", the error is absent and
  busy is false; the promise is fulfilled.
\<close>

theorem analysis_success:
  assumes "trim (apiKey s) \<noteq> []" and "image s = Some img" and "img \<noteq> []"
    and \<open>generateContent env (trim (apiKey s)) (build_request img) =
          Resolves (Some (js ''{"description":"A","prompt":"B"}''))\<close>
  shows "result (analyzeImage env s) =
           JObject [(js ''description'', JString (js ''A'')), (js ''prompt'', JString (js ''B''))] \<and>
         error (analyzeImage env s) = None \<and>
         loading (analyzeImage env s) = False \<and>
         snd (analyzeImage_events env s) = Fulfilled"
proof -
  have "js ''{\"description\":\"A\",\"prompt\":\"B\"}'' \<noteq> []"
    by (simp add: js_def)
  from try_block_parsed [OF assms(4) this payload_AB] show ?thesis
    by (simp add: analyzeImage_def analyzeImage_events_ready [OF assms(1-3)])
qed

theorem analysis_success_witness:
  \<open>trim (apiKey ready_state) \<noteq> [] \<and> image ready_state = Some png_data_url \<and>
   png_data_url \<noteq> [] \<and>
   result (analyzeImage (answering (Some (js ''{"description":"A","prompt":"B"}'')) []) ready_state) =
     JObject [(js ''description'', JString (js ''A'')), (js ''prompt'', JString (js ''B''))] \<and>
   error (analyzeImage (answering (Some (js ''{"description":"A","prompt":"B"}'')) []) ready_state) = None \<and>
   loading (analyzeImage (answering (Some (js ''{"description":"A","prompt":"B"}'')) []) ready_state) = False\<close>
  using analysis_success [OF ready_key ready_image png_data_url_not_empty answering_reply, of "[]"]
    ready_key ready_image png_data_url_not_empty
  by simp

subsection \<open>Failure\<close>




lemma forbidden_403: "str_includes (js ''got status: 403 Forbidden'') (js ''403'')"
  by (simp add: js_def)

lemma marker_parse: "JSON_parse (js ''API_KEY_INVALID'') = None"
  by (simp add: JSON_parse_def js_def ch_def json_ws_def begin_value_def is_digit_def)

lemma v8_message_marker: "str_includes v8_message (js ''API_KEY_INVALID'')"
  by (simp add: v8_message_def js_def)

text \<open>
  C4, as amended. The error after an invocation that reaches the inference call is chosen
  from the message of what was thrown: the invalid-key message when that text contains
  \<^verbatim>\<open>403\<close> or \<^verbatim>\<open>API_KEY_INVALID\<close>, the generic message otherwise, also when there is no
  message. An absent or empty payload always gives the generic message. A parse failure
  gives what the same rule selects for the message of the \<^verbatim>\<open>SyntaxError\<close>, which the
  engine words. On success the error stays absent, as it does when the thrown value is
  nullish and the handler fails.
\<close>

theorem error_message_rule:
  assumes "trim (apiKey s) \<noteq> []" and "image s = Some img" and "img \<noteq> []"
    and "generateContent env (trim (apiKey s)) (build_request img) = reply"
  shows "error (analyzeImage env s) =
           (case reply of
              Rejects Nullish \<Rightarrow> None
            | Rejects (Thrown None) \<Rightarrow> Some generic_failure_message
            | Rejects (Thrown (Some m)) \<Rightarrow>
                Some (if str_includes m (js ''403'') \<or> str_includes m (js ''API_KEY_INVALID'')
                      then invalid_key_message else generic_failure_message)
            | Resolves None \<Rightarrow> Some generic_failure_message
            | Resolves (Some t) \<Rightarrow>
                if t = [] then Some generic_failure_message
                else if JSON_parse t = None then
                  Some (if str_includes (syntaxErrorMessage env t) (js ''403'') \<or>
                           str_includes (syntaxErrorMessage env t) (js ''API_KEY_INVALID'')
                        then invalid_key_message else generic_failure_message)
                else None)"
proof (cases reply)
  case (Rejects e)
  show ?thesis
  proof (cases e)
    case Nullish
    with Rejects try_block_Rejects [OF assms(4) [unfolded Rejects]] show ?thesis
      by (simp add: analyzeImage_def analyzeImage_events_ready [OF assms(1-3)]
          catch_block_Nullish)
  next
    case (Thrown m)
    from error_after_throw [OF assms(1-3) try_block_Rejects [OF assms(4) [unfolded Rejects Thrown]]]
    show ?thesis
      by (cases m) (simp_all add: Rejects Thrown message_includes_def)
  qed
next
  case (Resolves payload)
  show ?thesis
  proof (cases payload)
    case None
    from error_after_throw [OF assms(1-3) try_block_no_text [OF assms(4) [unfolded Resolves None]]]
    show ?thesis
      by (simp add: Resolves None no_response_generic)
  next
    case (Some t)
    show ?thesis
    proof (cases "t = []")
      case True
      from error_after_throw [OF assms(1-3)
          try_block_empty_text [OF assms(4) [unfolded Resolves Some True]]]
      show ?thesis
        by (simp add: Resolves Some True no_response_generic)
    next
      case False
      show ?thesis
      proof (cases "JSON_parse t")
        case None
        from error_after_throw [OF assms(1-3)
            try_block_unparsable [OF assms(4) [unfolded Resolves Some] False None]]
        show ?thesis
          by (simp add: Resolves Some False None message_includes_def)
      next
        case (Some v)
        from try_block_parsed [OF assms(4) [unfolded Resolves \<open>payload = Some t\<close>] False Some]
        show ?thesis
          by (simp add: Resolves \<open>payload = Some t\<close> False Some analyzeImage_def
              analyzeImage_events_ready [OF assms(1-3)])
      qed
    qed
  qed
qed

theorem error_message_rule_witness:
  "trim (apiKey ready_state) \<noteq> [] \<and> image ready_state = Some png_data_url \<and>
   png_data_url \<noteq> [] \<and>
   error (analyzeImage (rejecting (Thrown (Some (js ''got status: 403 Forbidden'')))) ready_state) =
     Some invalid_key_message"
  using error_message_rule [OF ready_key ready_image png_data_url_not_empty rejecting_reply,
      of "Thrown (Some (js ''got status: 403 Forbidden''))"]
    ready_key ready_image png_data_url_not_empty forbidden_403
  by simp

text \<open>
  C4 as stated fails for a parse failure: V8 quotes the offending text in the message of
  the \<^verbatim>\<open>SyntaxError\<close>, so the payload \<^verbatim>\<open>API_KEY_INVALID\<close>, which is not JSON, ends in the
  invalid-key message and not in the generic one.
\<close>

theorem parse_failure_counterexample:
  "JSON_parse (js ''API_KEY_INVALID'') = None \<and>
   error (analyzeImage (answering (Some (js ''API_KEY_INVALID'')) v8_message) ready_state) =
     Some invalid_key_message \<and>
   invalid_key_message \<noteq> generic_failure_message"
proof -
  have n: "js ''API_KEY_INVALID'' \<noteq> []"
    by (simp add: js_def)
  from error_after_throw [OF ready_key ready_image png_data_url_not_empty
      try_block_unparsable [OF answering_reply n marker_parse]]
  show ?thesis
    by (simp add: answering_def message_includes_def v8_message_marker marker_parse
        messages_differ)
qed

subsection \<open>The request\<close>

lemma data_url_not_empty: "js ''data:'' @ rest \<noteq> []"
  by (simp add: js_def)

text \<open>
  C10. Whatever the media type of the selected file, and so whatever media type its data
  URL records, the analysis of the image read from it issues exactly one request, and
  that request declares the inline data as \<^verbatim>\<open>image/jpeg\<close>.
\<close>

theorem request_mime_type:
  assumes "trim (apiKey s) \<noteq> []" and "\<not> read_fails f"
  shows "\<exists>req. requests (fst (analyzeImage_events env (handleImageChange (Some f) s))) = [req] \<and>
           inline_mimeType req = js ''image/jpeg''"
proof -
  let ?s = "handleImageChange (Some f) s"
  let ?img = "js ''data:'' @ file_type f @ js '';base64,'' @ file_base64 f"
  have k: "trim (apiKey ?s) \<noteq> []"
    using assms(1) by (simp add: handleImageChange_Some)
  have i: "image ?s = Some ?img"
    using assms(2) by (simp add: handleImageChange_Some readAsDataURL_def)
  have "requests (fst (analyzeImage_events env ?s)) = [build_request ?img]"
    by (rule analysis_requests [OF k i data_url_not_empty])
  moreover have "inline_mimeType (build_request ?img) = js ''image/jpeg''"
    by (simp add: build_request_def)
  ultimately show ?thesis by blast
qed

theorem request_mime_type_witness:
  "trim (apiKey keyed_state) \<noteq> [] \<and> \<not> read_fails png_file \<and>
   image (handleImageChange (Some png_file) keyed_state) = Some png_data_url \<and>
   (\<exists>req. requests (fst (analyzeImage_events (rejecting Nullish)
              (handleImageChange (Some png_file) keyed_state))) = [req] \<and>
      inline_mimeType req = js ''image/jpeg'')"
proof -
  have k: "trim (apiKey keyed_state) \<noteq> []"
    by (simp add: keyed_state_fields trim_my_key) (simp add: js_def)
  have r: "\<not> read_fails png_file"
    by (simp add: png_file_def)
  have "image (handleImageChange (Some png_file) keyed_state) = Some png_data_url"
    by (simp add: handleImageChange_Some readAsDataURL_def png_file_def png_data_url_def js_def)
  with request_mime_type [OF k r, of "rejecting Nullish"] k r show ?thesis
    by simp
qed

subsection \<open>The result\<close>

lemma partial_payload_parse:
  "JSON_parse partial_payload = Some (JObject [(js ''description'', JString (js ''A''))])"
  by (simp add: partial_payload_def JSON_parse_def js_def ch_def json_ws_def begin_value_def
      is_digit_def)

lemma partial_payload_result:
  "result (analyzeImage (answering (Some partial_payload) []) ready_state) =
     JObject [(js ''description'', JString (js ''A''))]"
proof -
  have n: "partial_payload \<noteq> []"
    by (simp add: partial_payload_def js_def)
  from try_block_parsed [OF answering_reply n partial_payload_parse, of "[]" "apiKey ready_state" png_data_url]
  show ?thesis
    by (simp add: analyzeImage_def
        analyzeImage_events_ready [OF ready_key ready_image png_data_url_not_empty])
qed

text \<open>
  C1, as amended. In every reachable state the result is absent, or it is the value that
  \<^verbatim>\<open>JSON.parse\<close> returned for a non-empty response text received on the way to the
  state. An analysis changes the result only to the value parsed from the non-empty text
  of its own response. The code does not check the shape of that value, so the result has
  both string fields only when a received text parsed to a value that has them.
\<close>

theorem result_invariant:
  assumes "reachable h s"
  shows "(result s = JNull \<or>
          (\<exists>t. t \<in> set h \<and> t \<noteq> [] \<and> JSON_parse t = Some (result s))) \<and>
         (\<forall>env. result (analyzeImage env s) = result s \<or>
            (\<exists>img t. image s = Some img \<and>
               generateContent env (trim (apiKey s)) (build_request img) = Resolves (Some t) \<and>
               t \<noteq> [] \<and> JSON_parse t = Some (result (analyzeImage env s)))) \<and>
         (two_field_shape (result s) \<longrightarrow>
            (\<exists>t v. t \<in> set h \<and> JSON_parse t = Some v \<and> two_field_shape v))"
proof -
  from assms have inv: "result s = JNull \<or>
      (\<exists>t. t \<in> set h \<and> t \<noteq> [] \<and> JSON_parse t = Some (result s))"
  proof (induction rule: reachable.induct)
    case (start st)
    show ?case by (simp add: mount_def mount_events_def initial_def split: option.splits)
  next
    case (key h s env k)
    then show ?case by (simp add: saveApiKey_def saveApiKey_events_def)
  next
    case (toggle h s)
    then show ?case by (simp add: toggleShowKey_def)
  next
    case (pick h s fo)
    then show ?case
      by (cases fo) (simp_all add: handleImageChange_def handleImageChange_events_def)
  next
    case (analyze h s env)
    from result_after_click [of env s] show ?case
    proof
      assume "result (click_analyze env s) = result s"
      with analyze.IH show ?thesis by auto
    next
      assume "\<exists>t. t \<in> set (texts_received env (click_analyze_events env s)) \<and> t \<noteq> [] \<and>
        JSON_parse t = Some (result (click_analyze env s))"
      then show ?thesis by auto
    qed
  qed
  have step: "\<forall>env. result (analyzeImage env s) = result s \<or>
      (\<exists>img t. image s = Some img \<and>
         generateContent env (trim (apiKey s)) (build_request img) = Resolves (Some t) \<and>
         t \<noteq> [] \<and> JSON_parse t = Some (result (analyzeImage env s)))"
    using result_from_reply [of _ s] by blast
  have "\<not> two_field_shape JNull"
    by (simp add: two_field_shape_def)
  with inv have "two_field_shape (result s) \<longrightarrow>
      (\<exists>t v. t \<in> set h \<and> JSON_parse t = Some v \<and> two_field_shape v)"
    by metis
  with inv step show ?thesis by blast
qed

theorem result_invariant_witness:
  "reachable [both_payload] (analyzeImage (answering (Some both_payload) []) ready_state) \<and>
   (result (analyzeImage (answering (Some both_payload) []) ready_state) = JNull \<or>
    (\<exists>t. t \<in> set [both_payload] \<and> t \<noteq> [] \<and>
       JSON_parse t = Some (result (analyzeImage (answering (Some both_payload) []) ready_state))))"
proof -
  have r: "reachable [both_payload] (analyzeImage (answering (Some both_payload) []) ready_state)"
    using analysis_reachable [of "answering (Some both_payload) []"]
    by (simp add: answered_texts)
  from result_invariant [OF r] r show ?thesis
    by blast
qed

text \<open>
  C1 as stated fails: a response \<^verbatim>\<open>{"description":"A"}\<close> parses, is stored, and leaves a
  reachable state whose result has one of the two fields only.
\<close>

theorem result_shape_counterexample:
  "reachable [partial_payload] (analyzeImage (answering (Some partial_payload) []) ready_state) \<and>
   result (analyzeImage (answering (Some partial_payload) []) ready_state) \<noteq> JNull \<and>
   \<not> two_field_shape (result (analyzeImage (answering (Some partial_payload) []) ready_state))"
proof -
  have "reachable [partial_payload]
      (analyzeImage (answering (Some partial_payload) []) ready_state)"
    using analysis_reachable [of "answering (Some partial_payload) []"]
    by (simp add: answered_texts)
  then show ?thesis
    by (simp add: partial_payload_result two_field_shape_def js_def)
qed

end
